theory Spec2Isabelle
  imports Complex_Main
begin

section \<open>Values shared by the extractors of \<open>generate_csv.py\<close>\<close>

text \<open>
  Python floats are modelled as real numbers, a float literal as the decimal it is
  written as. A NaN (the \<open>np.nan\<close> of the source, and the cells that
  \<open>where\<close> masks out) is \<open>None\<close> of type \<open>real option\<close>.
  An exception that leaves a function is the \<open>Inl\<close> of a sum.
\<close>

datatype error =
  UnboundLocalError | OverflowError | ValueError | IndexError | KeyError | NotImplementedError

section \<open>Gust scale: \<open>ws2scale_city\<close> inside \<open>get_uvg_by_3h\<close>\<close>

text \<open>
  The function assigns the local \<open>scale\<close> only under
  \<open>if np.abs(ws) != undef\<close>, which has no \<open>else\<close>, and then returns it.
  The chain of \<open>elif\<close>s is kept in the order of the source, with its both bounds;
  the branch for 11 starts at 29.5 although the branch before it ends at 30.
\<close>

definition undef :: real where
  "undef = 32767"

definition ws2scale_city :: "real \<Rightarrow> error + real option" where
  "ws2scale_city ws =
    (if \<bar>ws\<bar> \<noteq> undef then
       Inr (if 0 \<le> ws \<and> ws < 5.0 then Some 2
       else if 5.0 \<le> ws \<and> ws < 8.0 then Some 4
       else if 8.0 \<le> ws \<and> ws < 10 then Some 5
       else if 10 \<le> ws \<and> ws < 12 then Some 6
       else if 12 \<le> ws \<and> ws < 14 then Some 6.5
       else if 14 \<le> ws \<and> ws < 16 then Some 7
       else if 16 \<le> ws \<and> ws < 18 then Some 7.5
       else if 18 \<le> ws \<and> ws < 20 then Some 8
       else if 20 \<le> ws \<and> ws < 22 then Some 8.5
       else if 22 \<le> ws \<and> ws < 26 then Some 9
       else if 26 \<le> ws \<and> ws < 27.5 then Some 9.5
       else if 27.5 \<le> ws \<and> ws < 28.5 then Some 10
       else if 28.5 \<le> ws \<and> ws < 30 then Some 10.5
       else if 29.5 \<le> ws \<and> ws < 31.5 then Some 11
       else if 31.5 \<le> ws \<and> ws < 33.5 then Some 11.5
       else if 33.5 \<le> ws \<and> ws < 35.5 then Some 12
       else if 35.5 \<le> ws \<and> ws < 37.5 then Some 12.5
       else if 37.5 \<le> ws \<and> ws < 39.5 then Some 13
       else if 39.5 \<le> ws \<and> ws < 41.5 then Some 13.5
       else if 41.5 \<le> ws \<and> ws < 43.9 then Some 14
       else if 43.9 \<le> ws \<and> ws < 46.2 then Some 14.5
       else if 46.2 \<le> ws \<and> ws < 48.7 then Some 15
       else if 48.7 \<le> ws \<and> ws < 51.0 then Some 15.5
       else if 51.0 \<le> ws \<and> ws < 53.6 then Some 16
       else if 53.6 \<le> ws \<and> ws < 56.1 then Some 16.5
       else if 56.1 \<le> ws \<and> ws < 58.7 then Some 17
       else if 58.7 \<le> ws \<and> ws < 61.3 then Some 17.5
       else None)
     else Inl UnboundLocalError)"

definition scale_le :: "error + real option \<Rightarrow> error + real option \<Rightarrow> bool" where
  \<comment> \<open>both calls return a number, the first one at most the second\<close>
  "scale_le r1 r2 =
    (case (r1, r2) of (Inr (Some x), Inr (Some y)) \<Rightarrow> x \<le> y | _ \<Rightarrow> False)"

section \<open>Precipitation classifier: one pass of the loop of \<open>get_rain_by_3h\<close>\<close>

text \<open>
  A window is the flattened array of its grid cells after \<open>reindex_like(sf)\<close>:
  each cell carries \<open>tp\<close>, \<open>sf\<close> and \<open>cp\<close> in millimetres, a value the
  reindexing could not fill being NaN. Comparisons with a NaN are false and arithmetic
  on a NaN is a NaN, as in numpy.
\<close>

record cell =
  tp :: "real option"
  sf :: "real option"
  cp :: "real option"

definition nan_gt :: "real option \<Rightarrow> real \<Rightarrow> bool" where
  "nan_gt a c = (case a of None \<Rightarrow> False | Some x \<Rightarrow> x > c)"

definition nan_lt :: "real option \<Rightarrow> real \<Rightarrow> bool" where
  "nan_lt a c = (case a of None \<Rightarrow> False | Some x \<Rightarrow> x < c)"

definition nan_ge :: "real option \<Rightarrow> real \<Rightarrow> bool" where
  "nan_ge a c = (case a of None \<Rightarrow> False | Some x \<Rightarrow> x \<ge> c)"

definition nan_sub :: "real option \<Rightarrow> real option \<Rightarrow> real option" where
  "nan_sub a b = (case (a, b) of (Some x, Some y) \<Rightarrow> Some (x - y) | _ \<Rightarrow> None)"

definition summer :: "int \<Rightarrow> bool" where
  \<comment> \<open>\<open>mon in range(4, 11)\<close>\<close>
  "summer mon = (4 \<le> mon \<and> mon < 11)"

definition mask_tp :: "int \<Rightarrow> cell \<Rightarrow> cell" where
  \<comment> \<open>\<open>tp = tp.where(tp >= 0.2)\<close> in summer, \<open>tp.where(tp >= 0.15)\<close> otherwise\<close>
  "mask_tp mon c =
    (if summer mon then c\<lparr>tp := (if nan_ge (tp c) 0.2 then tp c else None)\<rparr>
     else c\<lparr>tp := (if nan_ge (tp c) 0.15 then tp c else None)\<rparr>)"

text \<open>The five masked arrays, cell by cell, on the cells whose \<open>tp\<close> is already masked.\<close>

definition sleet :: "cell \<Rightarrow> real option" where
  "sleet c = (if nan_gt (nan_sub (tp c) (sf c)) 0.1 \<and> nan_gt (sf c) 0.1 then tp c else None)"

definition snow :: "cell \<Rightarrow> real option" where
  "snow c = (if nan_lt (nan_sub (tp c) (sf c)) 0.1 \<and> nan_gt (sf c) 0.1 then sf c else None)"

definition rain :: "cell \<Rightarrow> real option" where
  "rain c = (if nan_gt (nan_sub (tp c) (sf c)) 0.1 \<and> nan_lt (sf c) 0.1 then tp c else None)"

definition thunder :: "cell \<Rightarrow> real option" where
  "thunder c = (if rain c \<noteq> None \<and> nan_ge (cp c) 5 then tp c else None)"

definition drizzle :: "cell \<Rightarrow> real option" where
  "drizzle c = (if rain c \<noteq> None \<and> nan_gt (cp c) 2 \<and> nan_lt (cp c) 5 then tp c else None)"

definition count_valid :: "(cell \<Rightarrow> real option) \<Rightarrow> cell list \<Rightarrow> nat" where
  \<comment> \<open>\<open>np.sum(~np.isnan(a)).item()\<close>\<close>
  "count_valid a cs = length (filter (\<lambda>c. a c \<noteq> None) cs)"

definition nanmax :: "real option list \<Rightarrow> real option" where
  \<comment> \<open>\<open>np.nanmax\<close>: the largest value that is not NaN; NaN when every value is NaN.
      (On an empty array numpy raises; every call below is on an array that a count
      has shown to hold a value, or is guarded by \<open>tp.size == 0\<close>.)\<close>
  "nanmax xs =
    (case map the (filter (\<lambda>x. x \<noteq> None) xs) of
       [] \<Rightarrow> None
     | y # ys \<Rightarrow> Some (fold max ys y))"

record stats =
  count_precip :: nat
  count_total :: nat
  count_sleet :: nat
  count_snow :: nat
  count_rain :: nat
  count_thunder :: nat
  count_drizzle :: nat
  max_rain :: "real option"
  max_snow :: "real option"
  max_sleet :: "real option"

definition window_stats :: "int \<Rightarrow> cell list \<Rightarrow> stats" where
  \<comment> \<open>the counts of lines 403 to 409, and the three \<open>np.nanmax\<close> the branches read\<close>
  "window_stats mon cells =
    (let cs = map (mask_tp mon) cells in
     \<lparr> count_precip =
         length (filter (\<lambda>c. rain c \<noteq> None \<or> sleet c \<noteq> None \<or> snow c \<noteq> None) cs),
       count_total = length cs,
       count_sleet = count_valid sleet cs,
       count_snow = count_valid snow cs,
       count_rain = count_valid rain cs,
       count_thunder = count_valid thunder cs,
       count_drizzle = count_valid drizzle cs,
       max_rain = nanmax (map rain cs),
       max_snow = nanmax (map snow cs),
       max_sleet = nanmax (map sleet cs) \<rparr>)"

definition tpmax_of :: "int \<Rightarrow> cell list \<Rightarrow> real" where
  \<comment> \<open>\<open>tpmax = 0 if tp.size == 0 or np.all(np.isnan(tp)) else np.nanmax(tp).item()\<close>\<close>
  "tpmax_of mon cells =
    (case nanmax (map (\<lambda>c. tp (mask_tp mon c)) cells) of None \<Rightarrow> 0 | Some m \<Rightarrow> m)"

definition rain_percent_of :: "stats \<Rightarrow> real" where
  \<comment> \<open>\<open>count_precip / count_total if count_total > 0 else 0\<close>\<close>
  "rain_percent_of st =
    (if count_total st > 0 then real (count_precip st) / real (count_total st) else 0)"

definition present :: "nat \<Rightarrow> stats \<Rightarrow> bool" where
  \<comment> \<open>an entry of \<open>rain_type\<close> is 1: \<open>count_total > 0\<close> and \<open>count / count_total >= 0.05\<close>\<close>
  "present cnt st = (count_total st > 0 \<and> real cnt / real (count_total st) \<ge> 0.05)"

definition ifrain_of :: "int \<Rightarrow> stats \<Rightarrow> real" where
  \<comment> \<open>lines 417 to 547: \<open>rain_percent\<close>, \<open>rain_type\<close> and the branches on them.
      \<open>rt0\<close> .. \<open>rt4\<close> are \<open>rain_type[0] == 1\<close> .. \<open>rain_type[4] == 1\<close>
      (sleet, snow, rain, thunder, drizzle); \<open>p\<close> is \<open>rain_percent\<close>.\<close>
  "ifrain_of mon st =
    (let p = rain_percent_of st;
         rt0 = present (count_sleet st) st;
         rt1 = present (count_snow st) st;
         rt2 = present (count_rain st) st;
         rt3 = present (count_thunder st) st;
         rt4 = present (count_drizzle st) st
     in
     if count_precip st = 0 then 0
     else if summer mon then
       (if rt3 then
          (if p \<ge> 0.8 then 3.0
           else if 0.5 \<le> p \<and> p < 0.8 then 3.1
           else 3.2)
        else if rt4 then
          (if p \<ge> 0.8 then 2.0
           else if 0.5 \<le> p \<and> p < 0.8 then 2.1
           else 2.2)
        else if rt2 then
          (if p \<ge> 0.8 then
             (if nan_ge (max_rain st) 5 then 1.0 else 1.1)
           else if 0.5 \<le> p \<and> p < 0.8 then 1.2
           else if 0.2 \<le> p \<and> p < 0.5 then 1.3
           else 1.4)
        else 0)
     else
       (if rt1 then
          (if rt4 \<or> rt0 \<or> rt2 then
             (if count_sleet st + count_rain st \<ge> count_snow st then
                (if p \<ge> 0.8 then 11.0
                 else if 0.5 \<le> p \<and> p < 0.8 then 11.1
                 else 11.2)
              else
                (if p \<ge> 0.8 then 15.0
                 else if 0.5 \<le> p \<and> p < 0.8 then 15.1
                 else 15.2))
           else
             (if p \<ge> 0.8 then
                (if nan_ge (max_snow st) 0.5 then 12.0 else 12.1)
              else if 0.5 \<le> p \<and> p < 0.8 then 12.2
              else 12.4))
        else if rt0 \<or> rt2 then
          (if rt4 then
             (if rt2 \<and> rt0 then
                (if count_rain st \<ge> count_sleet st then
                   (if p \<ge> 0.8 then 5.0
                    else if 0.5 \<le> p \<and> p < 0.8 then 5.1
                    else 5.2)
                 else
                   (if p \<ge> 0.8 then 9.0
                    else if 0.5 \<le> p \<and> p < 0.8 then 9.1
                    else 9.2))
              else if rt0 then
                (if p \<ge> 0.8 then 7.0
                 else if 0.5 \<le> p \<and> p < 0.8 then 7.1
                 else 7.2)
              else if rt2 then
                (if p \<ge> 0.8 then 2.0
                 else if 0.5 \<le> p \<and> p < 0.8 then 2.1
                 else 2.2)
              else 0)
           else
             (if rt2 \<and> rt0 then
                (if count_rain st \<ge> count_sleet st then
                   (if p \<ge> 0.8 then
                      (if nan_ge (max_rain st) 5 then 4.0 else 4.1)
                    else if 0.5 \<le> p \<and> p < 0.8 then 4.2
                    else 4.4)
                 else
                   (if p \<ge> 0.8 then
                      (if nan_ge (max_rain st) 5 then 8.0 else 8.1)
                    else if 0.5 \<le> p \<and> p < 0.8 then 8.2
                    else 8.4))
              else if rt0 then
                (if p \<ge> 0.8 then
                   (if nan_ge (max_sleet st) 3 then 6.0 else 6.1)
                 else if 0.5 \<le> p \<and> p < 0.8 then 6.2
                 else 6.4)
              else if rt2 then
                (if p \<ge> 0.8 then
                   (if nan_ge (max_rain st) 5 then 1.0 else 1.1)
                 else if 0.5 \<le> p \<and> p < 0.8 then 1.2
                 else 1.4)
              else 0))
        else 0))"

definition get_rain_window :: "int \<Rightarrow> cell list \<Rightarrow> real \<times> real \<times> real" where
  \<comment> \<open>what one pass appends to \<open>ifrain_list\<close>, \<open>tpmax_list\<close> and \<open>rain_percent_list\<close>\<close>
  "get_rain_window mon cells =
    (let st = window_stats mon cells
     in (ifrain_of mon st, tpmax_of mon cells, rain_percent_of st))"

definition no_type_present :: "int \<Rightarrow> stats \<Rightarrow> bool" where
  \<comment> \<open>none of the types the season's branches test reaches the 5 percent share\<close>
  "no_type_present mon st =
    (if summer mon then
       \<not> present (count_thunder st) st \<and> \<not> present (count_drizzle st) st
       \<and> \<not> present (count_rain st) st
     else
       \<not> present (count_snow st) st \<and> \<not> present (count_sleet st) st
       \<and> \<not> present (count_rain st) st)"

section \<open>Naive datetimes and \<open>datetime.strptime\<close>\<close>

text \<open>
  A naive \<open>datetime\<close> with no microseconds is the number of seconds from
  0001-01-01T00:00:00 on the proleptic Gregorian calendar, the calendar of Python's
  \<open>toordinal\<close>. The type holds the years 1 to 9999: the last day, 9999-12-31, has
  ordinal 3652059, and \<open>datetime + timedelta\<close> raises \<open>OverflowError\<close> for a
  result outside.
\<close>

type_synonym naive = int

definition max_seconds :: int where
  "max_seconds = 3652059 * 86400"

definition dt_add :: "naive \<Rightarrow> int \<Rightarrow> error + naive" where
  \<comment> \<open>\<open>t + timedelta(seconds=d)\<close>\<close>
  "dt_add t d = (if 0 \<le> t + d \<and> t + d < max_seconds then Inr (t + d) else Inl OverflowError)"

definition date_of :: "naive \<Rightarrow> int" where
  \<comment> \<open>\<open>t.date()\<close>, as the number of days from 0001-01-01\<close>
  "date_of t = t div 86400"

definition combine_min_time :: "int \<Rightarrow> naive" where
  \<comment> \<open>\<open>datetime.combine(d, datetime.min.time())\<close>: midnight of the day\<close>
  "combine_min_time d = d * 86400"

definition is_leap :: "int \<Rightarrow> bool" where
  "is_leap y = (y mod 4 = 0 \<and> (y mod 100 \<noteq> 0 \<or> y mod 400 = 0))"

definition days_before_year :: "int \<Rightarrow> int" where
  "days_before_year y = (y - 1) * 365 + (y - 1) div 4 - (y - 1) div 100 + (y - 1) div 400"

definition days_in_month :: "int \<Rightarrow> int \<Rightarrow> int" where
  "days_in_month y m =
    (if m = 2 then (if is_leap y then 29 else 28)
     else if m = 4 \<or> m = 6 \<or> m = 9 \<or> m = 11 then 30 else 31)"

definition days_before_month :: "int \<Rightarrow> int \<Rightarrow> int" where
  "days_before_month y m = sum_list (map (days_in_month y) [1..m - 1])"

definition ymd2ord :: "int \<Rightarrow> int \<Rightarrow> int \<Rightarrow> int" where
  "ymd2ord y m d = days_before_year y + days_before_month y m + d"

definition mk_datetime :: "int \<Rightarrow> int \<Rightarrow> int \<Rightarrow> int \<Rightarrow> int \<Rightarrow> int \<Rightarrow> naive option" where
  \<comment> \<open>the constructor \<open>datetime(y, m, d, H, M, S)\<close>; \<open>None\<close> is its \<open>ValueError\<close>\<close>
  "mk_datetime y m d H M S =
    (if 1 \<le> y \<and> y \<le> 9999 \<and> 1 \<le> m \<and> m \<le> 12 \<and> 1 \<le> d \<and> d \<le> days_in_month y m
        \<and> 0 \<le> H \<and> H \<le> 23 \<and> 0 \<le> M \<and> M \<le> 59 \<and> 0 \<le> S \<and> S \<le> 59
     then Some ((ymd2ord y m d - 1) * 86400 + H * 3600 + M * 60 + S)
     else None)"

text \<open>
  \<open>datetime.strptime(s, "%Y-%m-%dT%H:%M:%S")\<close> on an ASCII string, \<open>None\<close> being its
  \<open>ValueError\<close>. The library matches the regular expression it builds from the
  format (\<open>%Y\<close> is four digits; \<open>%m\<close>, \<open>%d\<close>, \<open>%H\<close>, \<open>%M\<close> and \<open>%S\<close> are one
  or two digits in the directive's range, \<open>%d\<close> also a space and a digit; letters
  match in either case), wants the whole string matched, and builds the datetime.
\<close>

definition digit_of :: "char \<Rightarrow> int option" where
  "digit_of c =
    (let n = (of_char c :: nat) in if 48 \<le> n \<and> n \<le> 57 then Some (int n - 48) else None)"

fun digits :: "string \<Rightarrow> int list \<times> string" where
  \<comment> \<open>the longest run of digits at the front, and the rest\<close>
  "digits [] = ([], [])"
| "digits (c # cs) =
    (case digit_of c of
       None \<Rightarrow> ([], c # cs)
     | Some d \<Rightarrow> (case digits cs of (ds, rest) \<Rightarrow> (d # ds, rest)))"

definition number :: "int list \<Rightarrow> int" where
  "number ds = fold (\<lambda>d n. 10 * n + d) ds 0"

definition field :: "nat \<Rightarrow> nat \<Rightarrow> string \<Rightarrow> (int \<times> string) option" where
  \<comment> \<open>a run of at least \<open>lo\<close> and at most \<open>hi\<close> digits, read as a number\<close>
  "field lo hi s =
    (case digits s of (ds, rest) \<Rightarrow>
       if lo \<le> length ds \<and> length ds \<le> hi then Some (number ds, rest) else None)"

definition day_field :: "string \<Rightarrow> (int \<times> string) option" where
  \<comment> \<open>\<open>%d\<close> is \<open>3[0-1]|[1-2]\d|0[1-9]|[1-9]| [1-9]\<close>\<close>
  "day_field s =
    (case s of
       c # cs \<Rightarrow> if c = CHR '' '' then field 1 1 cs else field 1 2 s
     | [] \<Rightarrow> None)"

definition expect :: "char list \<Rightarrow> string \<Rightarrow> string option" where
  \<comment> \<open>the next character is one of \<open>cs\<close>\<close>
  "expect cs s = (case s of c # rest \<Rightarrow> if c \<in> set cs then Some rest else None | [] \<Rightarrow> None)"

definition strptime :: "string \<Rightarrow> naive option" where
  "strptime s =
    Option.bind (field 4 4 s) (\<lambda>(y, s1).
    Option.bind (expect [CHR ''-''] s1) (\<lambda>s2.
    Option.bind (field 1 2 s2) (\<lambda>(m, s3).
    Option.bind (expect [CHR ''-''] s3) (\<lambda>s4.
    Option.bind (day_field s4) (\<lambda>(d, s5).
    Option.bind (expect [CHR ''T'', CHR ''t''] s5) (\<lambda>s6.
    Option.bind (field 1 2 s6) (\<lambda>(H, s7).
    Option.bind (expect [CHR '':''] s7) (\<lambda>s8.
    Option.bind (field 1 2 s8) (\<lambda>(M, s9).
    Option.bind (expect [CHR '':''] s9) (\<lambda>s10.
    Option.bind (field 1 2 s10) (\<lambda>(S, s11).
    if s11 = [] then mk_datetime y m d H M S else None)))))))))))"

section \<open>Time window generator: \<open>generate_three_hour_intervals\<close>\<close>

text \<open>
  A window is the pair of instants that the source formats into two strings with
  \<open>strftime\<close>. The \<open>while\<close> loop appends to \<open>time_intervals\<close>.
\<close>

type_synonym window = "naive \<times> naive"

function intervals_loop :: "naive \<Rightarrow> naive \<Rightarrow> window list \<Rightarrow> error + window list" where
  "intervals_loop current_time end_time_boundary time_intervals =
    (if current_time < end_time_boundary then
       (case dt_add current_time (3 * 3600) of
          Inl e \<Rightarrow> Inl e
        | Inr end_time \<Rightarrow>
            (let end_time' = (if end_time > end_time_boundary then end_time_boundary else end_time)
             in intervals_loop end_time' end_time_boundary
                  (time_intervals @ [(current_time, end_time')])))
     else Inr time_intervals)"
  by pat_completeness auto
termination
  by (relation "measure (\<lambda>(c, b, acc). nat (b - c))")
     (auto simp: dt_add_def split: if_splits)

declare intervals_loop.simps [simp del]

definition generate_three_hour_intervals :: "string \<Rightarrow> error + window list" where
  "generate_three_hour_intervals start_time_str =
    (case strptime start_time_str of
       None \<Rightarrow> Inr []
     | Some current_time \<Rightarrow>
         (case dt_add current_time 86400 of
            Inl e \<Rightarrow> Inl e
          | Inr next_day \<Rightarrow>
              (case dt_add (combine_min_time (date_of next_day)) (20 * 3600) of
                 Inl e \<Rightarrow> Inl e
               | Inr end_time_boundary \<Rightarrow>
                   intervals_loop current_time end_time_boundary [])))"

definition daily_cutoff :: "naive \<Rightarrow> naive" where
  \<comment> \<open>20:00 on the calendar day after the day of \<open>t0\<close>\<close>
  "daily_cutoff t0 = (t0 div 86400 + 1) * 86400 + 20 * 3600"

fun contiguous :: "naive \<Rightarrow> window list \<Rightarrow> naive \<Rightarrow> bool" where
  \<comment> \<open>the windows start at \<open>a\<close>, each starts where the one before ends, is not empty
      and spans at most three hours, and the last one ends at \<open>b\<close>\<close>
  "contiguous a [] b = (a = b)"
| "contiguous a (w # ws) b =
    (fst w = a \<and> fst w < snd w \<and> snd w - fst w \<le> 3 * 3600 \<and> contiguous (snd w) ws b)"

section \<open>Exceptions in sequence\<close>

definition bind_err :: "error + 'a \<Rightarrow> ('a \<Rightarrow> error + 'b) \<Rightarrow> error + 'b" where
  \<comment> \<open>run \<open>f\<close> on the value of \<open>r\<close>, unless \<open>r\<close> raised\<close>
  "bind_err r f = (case r of Inl e \<Rightarrow> Inl e | Inr x \<Rightarrow> f x)"

fun map_err :: "('a \<Rightarrow> error + 'b) \<Rightarrow> 'a list \<Rightarrow> error + 'b list" where
  \<comment> \<open>a \<open>for\<close> loop that appends one result per element and stops at the first exception\<close>
  "map_err f [] = Inr []"
| "map_err f (x # xs) =
    bind_err (f x) (\<lambda>y. bind_err (map_err f xs) (\<lambda>ys. Inr (y # ys)))"

section \<open>Civil-time converter: \<open>utc_to_beijing\<close> and \<open>beijing_to_utc\<close>\<close>

text \<open>
  A \<open>datetime\<close> argument is its wall-clock fields and its \<open>tzinfo\<close>, which is
  \<open>None\<close> for a naive one. The two functions also take a string, which they first
  turn into a datetime with \<open>fromisoformat\<close>; the model starts after that.

  The zone is \<open>pytz.timezone('Asia/Shanghai')\<close>. Its table is not part of the
  repository; it is the table of the IANA time zone database: local mean time until
  1901, then +8h, with daylight saving (+9h) in some summers, the last of them those
  of 1986 to 1991. The database gives the local mean time as +8:05:43; \<open>pytz\<close> rounds
  every offset to the whole minute when it builds the zone, so that its \<open>tzinfo\<close> of
  that period is \<open>LMT+8:06:00\<close>, and keeps the instants of the changes as they are. A
  \<open>tzinfo\<close> of the zone carries the offset that was in force when it was attached.
\<close>

datatype tzinfo = UTC | Shanghai int

record datetime =
  wall :: naive
  tzinfo :: "tzinfo option"

definition shanghai_transitions :: "(naive \<times> int \<times> bool) list" where
  \<comment> \<open>the UTC instant of each change, the offset in seconds from then on, and whether
      that is daylight-saving time\<close>
  "shanghai_transitions =
    [(59958114857, 28800, False), (60534921600, 32400, True), (60549692400, 28800, False),
     (61201929600, 32400, True), (61213503600, 28800, False), (61226726400, 32400, True),
     (61246767600, 28800, False), (61254547200, 32400, True), (61367727600, 28800, False),
     (61389763200, 32400, True), (61401769200, 28800, False), (61418707200, 32400, True),
     (61435983600, 28800, False), (61451712000, 32400, True), (61464927600, 28800, False),
     (61483248000, 32400, True), (61485577200, 28800, False), (62651124000, 32400, True),
     (62662611600, 28800, False), (62680759200, 32400, True), (62694061200, 28800, False),
     (62712813600, 32400, True), (62725510800, 28800, False), (62744263200, 32400, True),
     (62757565200, 28800, False), (62775712800, 32400, True), (62789014800, 28800, False),
     (62807162400, 32400, True), (62820464400, 28800, False)]"

fun in_force :: "(naive \<times> int \<times> bool) list \<Rightarrow> int \<times> bool \<Rightarrow> naive \<Rightarrow> int \<times> bool" where
  \<comment> \<open>the entry of the last change that is not after \<open>u\<close>, \<open>cur\<close> before the first\<close>
  "in_force [] cur u = cur"
| "in_force (t # ts) cur u = (if fst t \<le> u then in_force ts (snd t) u else cur)"

definition shanghai_info :: "naive \<Rightarrow> int \<times> bool" where
  \<comment> \<open>offset and daylight-saving flag in force at a UTC instant\<close>
  "shanghai_info u = in_force shanghai_transitions (29160, False) u"

definition readings :: "naive \<Rightarrow> (int \<times> bool) list" where
  \<comment> \<open>the entries of the zone under which the wall clock \<open>w\<close> is shown: none in a gap
      of a change to daylight saving, two where the clocks were set back\<close>
  "readings w =
    filter (\<lambda>p. shanghai_info (w - fst p) = p) [(29160, False), (32400, True), (28800, False)]"

definition least :: "int list \<Rightarrow> int" where
  "least xs = fold min (tl xs) (hd xs)"

definition pick_reading :: "(int \<times> bool) list \<Rightarrow> int option" where
  \<comment> \<open>\<open>localize\<close> with \<open>is_dst=False\<close> among several readings: the one that is not
      daylight saving if there is exactly one, else the latest in UTC, which has the
      least offset\<close>
  "pick_reading ps =
    (if ps = [] then None
     else if length ps = 1 then Some (fst (hd ps))
     else
       (let std = filter (\<lambda>r. \<not> snd r) ps in
        if length std = 1 then Some (fst (hd std))
        else if std = [] then Some (least (map fst ps))
        else Some (least (map fst std))))"

definition localize_offset :: "naive \<Rightarrow> int" where
  \<comment> \<open>the offset of the \<open>tzinfo\<close> that \<open>beijing_tz.localize(t)\<close> attaches to a naive
      \<open>t\<close>; for a wall clock in a gap, that of the wall clock six hours earlier\<close>
  "localize_offset w =
    (case pick_reading (readings w) of
       Some off \<Rightarrow> off
     | None \<Rightarrow>
         (case pick_reading (readings (w - 6 * 3600)) of
            Some off \<Rightarrow> off
          | None \<Rightarrow> fst (shanghai_info (w - 6 * 3600))))"


definition beijing_to_utc :: "datetime \<Rightarrow> error + datetime" where
  \<comment> \<open>\<open>localize\<close> when \<open>tzinfo is None\<close>, then \<open>astimezone(pytz.UTC)\<close>, which
      subtracts the offset the datetime carries and returns a UTC datetime as it is\<close>
  "beijing_to_utc beijing_time =
    (case tzinfo beijing_time of
       None \<Rightarrow>
         bind_err (dt_add (wall beijing_time) (- localize_offset (wall beijing_time))) (\<lambda>u.
         Inr \<lparr>wall = u, tzinfo = Some UTC\<rparr>)
     | Some UTC \<Rightarrow> Inr beijing_time
     | Some (Shanghai off) \<Rightarrow>
         bind_err (dt_add (wall beijing_time) (- off)) (\<lambda>u.
         Inr \<lparr>wall = u, tzinfo = Some UTC\<rparr>))"

definition to_utc :: "naive \<Rightarrow> error + naive" where
  \<comment> \<open>\<open>beijing_to_utc(t).replace(tzinfo=None)\<close> on a naive \<open>t\<close>\<close>
  "to_utc t = bind_err (beijing_to_utc \<lparr>wall = t, tzinfo = None\<rparr>) (\<lambda>d. Inr (wall d))"

definition utc_window :: "window \<Rightarrow> error + window" where
  "utc_window w = bind_err (to_utc (fst w)) (\<lambda>s. bind_err (to_utc (snd w)) (\<lambda>e. Inr (s, e)))"

section \<open>Wind direction: one pass of the loop of \<open>get_wdir_by_3h\<close>\<close>

text \<open>A grid cell of the window carries the time series of its two wind components.\<close>

record wind_cell =
  u10 :: "real list"
  v10 :: "real list"

definition mean :: "real list \<Rightarrow> real option" where
  \<comment> \<open>the mean along an axis; NaN on an empty one\<close>
  "mean xs = (if xs = [] then None else Some (sum_list xs / real (length xs)))"

definition nanmean :: "real option list \<Rightarrow> real option" where
  \<comment> \<open>the mean of the values that are not NaN (xarray skips them); NaN when there is none\<close>
  "nanmean xs = mean (map the (filter (\<lambda>x. x \<noteq> None) xs))"

definition arctan2 :: "real \<Rightarrow> real \<Rightarrow> real" where
  \<comment> \<open>\<open>np.arctan2(y, x)\<close>\<close>
  "arctan2 y x =
    (if x > 0 then arctan (y / x)
     else if x < 0 \<and> y \<ge> 0 then arctan (y / x) + pi
     else if x < 0 \<and> y < 0 then arctan (y / x) - pi
     else if y > 0 then pi / 2
     else if y < 0 then - pi / 2
     else 0)"

definition direction :: "real option \<Rightarrow> real option \<Rightarrow> real option" where
  \<comment> \<open>\<open>180.0 + np.arctan2(u, v) * deg\<close> with \<open>deg = 180.0 / np.pi\<close>\<close>
  "direction u v =
    (case (u, v) of (Some a, Some b) \<Rightarrow> Some (180 + arctan2 a b * (180 / pi)) | _ \<Rightarrow> None)"

definition get_wdir_window :: "wind_cell list \<Rightarrow> real option" where
  \<comment> \<open>\<open>u = u_slice.mean(dim='time')\<close>, \<open>v\<close> likewise, \<open>wdir\<close> per cell, then
      \<open>wdir.mean().item()\<close>\<close>
  "get_wdir_window cells =
    nanmean (map (\<lambda>c. direction (mean (u10 c)) (mean (v10 c))) cells)"

definition spec_wdir_window :: "wind_cell list \<Rightarrow> real option" where
  \<comment> \<open>the order of the spec's words: time mean per cell, then the spatial mean of
      \<open>u\<close> and of \<open>v\<close>, then one direction\<close>
  "spec_wdir_window cells =
    direction (nanmean (map (\<lambda>c. mean (u10 c)) cells)) (nanmean (map (\<lambda>c. mean (v10 c)) cells))"

definition angle :: "wind_cell \<Rightarrow> real" where
  \<comment> \<open>the \<open>arctan2\<close> of the time-mean vector of a cell with data\<close>
  "angle c =
    arctan2 (sum_list (u10 c) / real (length (u10 c))) (sum_list (v10 c) / real (length (v10 c)))"

section \<open>The gridded dataset as the extractors read it\<close>

text \<open>
  \<open>get_era5_data_by_vars\<close> returns \<open>None\<close> when the file cannot be opened, and else
  a dataset: the one it opened if that holds the variable, otherwise the one that the
  filter on the short name gives, which lacks the variable when the file has no such
  field. Indexing a dataset with a variable it lacks raises \<open>KeyError\<close>.

  \<open>sel\<close> belongs to xarray. The model takes its results as given, for a file whose
  coordinates hold the labels that are selected: the \<open>_sel\<close> fields give the selected
  values per window of UTC time. With \<open>method="nearest"\<close> it takes labels only
  and raises \<open>NotImplementedError\<close> for a slice. For the cloud code the dataset
  gives the two means that lines 322 to 338 compute.
\<close>

datatype var = T2M | D2M | U10 | V10 | I10FG | TCC | LCC | TP | SF | CP | R

datatype loaded = NoDataset | Lacks | Holds

datatype region = Point | Range

record dataset =
  load :: "var \<Rightarrow> loaded"
  has_levels :: bool
  t2m_sel :: "window \<Rightarrow> real list"
  point_sel :: "window \<Rightarrow> (real \<times> real) list"
  wind_sel :: "window \<Rightarrow> wind_cell list"
  gust_sel :: "window \<Rightarrow> real list"
  cloud_sel :: "window \<Rightarrow> real option \<times> real option"
  rain_sel :: "window \<Rightarrow> cell list"

definition has :: "dataset \<Rightarrow> var \<Rightarrow> bool" where
  \<comment> \<open>the variable is read: the loader returns a dataset and the dataset holds it\<close>
  "has ds v = (load ds v = Holds)"

definition list_max :: "real list \<Rightarrow> real" where
  \<comment> \<open>\<open>max\<close> of an array that is not empty\<close>
  "list_max xs = fold max (tl xs) (hd xs)"

definition list_min :: "real list \<Rightarrow> real" where
  "list_min xs = fold min (tl xs) (hd xs)"

section \<open>Temperature extremes: \<open>get_temperature_by_3h\<close>\<close>

definition get_temperature_by_3h ::
  "dataset \<Rightarrow> string \<Rightarrow> error + (real option list \<times> real option list)" where
  \<comment> \<open>a dataset that lacks the variable fails at \<open>temperature_ds['time']\<close>\<close>
  "get_temperature_by_3h ds time_str =
    (if load ds T2M = NoDataset then Inr ([], [])
     else if load ds T2M = Lacks then Inl KeyError
     else
       bind_err (generate_three_hour_intervals time_str) (\<lambda>time_intervals.
       bind_err (map_err utc_window time_intervals) (\<lambda>ws.
       Inr (map (\<lambda>w. if t2m_sel ds w \<noteq> [] then Some (list_max (t2m_sel ds w) - 273.15) else None) ws,
            map (\<lambda>w. if t2m_sel ds w \<noteq> [] then Some (list_min (t2m_sel ds w) - 273.15) else None) ws))))"

section \<open>Humidity range: \<open>get_rh_by_days\<close>\<close>

definition magnus_rh :: "real \<Rightarrow> real \<Rightarrow> real" where
  \<comment> \<open>Modelled from the spec: \<open>relative_humidity_from_dewpoint\<close> belongs to MetPy and is
      not part of the repository. The spec gives the August-Roche-Magnus approximation,
      here as the fraction that the source multiplies by 100.\<close>
  "magnus_rh T Td = exp ((17.625 * Td) / (243.04 + Td) - (17.625 * T) / (243.04 + T))"

definition get_rh_by_days_sel ::
  "region \<Rightarrow> (real \<Rightarrow> real \<Rightarrow> real) \<Rightarrow> dataset \<Rightarrow> string \<Rightarrow>
   error + (real option \<times> real option)" where
  \<comment> \<open>the function of the source. \<open>target\<close> tells what \<open>target_lat\<close> and
      \<open>target_lon\<close> are: the labels of a point, or slices.
      \<open>relative_humidity_from_dewpoint\<close> is the second argument.
      \<open>time_intervals[0][0]\<close> raises \<open>IndexError\<close> on an empty list, \<open>sel\<close> with
      \<open>method="nearest"\<close> raises on slices, \<open>np.max\<close> raises \<open>ValueError\<close> on an
      empty array.\<close>
  "get_rh_by_days_sel target relative_humidity_from_dewpoint ds time_str =
    bind_err (generate_three_hour_intervals time_str) (\<lambda>time_intervals.
    if time_intervals = [] then Inl IndexError
    else
      bind_err (to_utc (fst (hd time_intervals))) (\<lambda>start_time_utc.
      bind_err (to_utc (snd (last time_intervals))) (\<lambda>end_time_utc.
      if load ds T2M = NoDataset \<or> load ds D2M = NoDataset then Inr (None, None)
      else if load ds T2M = Lacks \<or> load ds D2M = Lacks then Inl KeyError
      else if target = Range then Inl NotImplementedError
      else
        (let rh = map (\<lambda>(t, d). relative_humidity_from_dewpoint (t - 273.15) (d - 273.15))
                    (point_sel ds (start_time_utc, end_time_utc))
         in if rh = [] then Inl ValueError
            else Inr (Some (list_min rh * 100), Some (list_max rh * 100))))))"

definition get_rh_by_days ::
  "(real \<Rightarrow> real \<Rightarrow> real) \<Rightarrow> dataset \<Rightarrow> string \<Rightarrow> error + (real option \<times> real option)" where
  \<comment> \<open>the function at a point, the use its docstring describes\<close>
  "get_rh_by_days = get_rh_by_days_sel Point"

section \<open>Wind direction, gust scale and cloud code per start time\<close>

definition get_wdir_by_3h :: "dataset \<Rightarrow> string \<Rightarrow> error + real option list option" where
  "get_wdir_by_3h ds time_str =
    bind_err (generate_three_hour_intervals time_str) (\<lambda>intervals.
    if load ds U10 = NoDataset \<or> load ds V10 = NoDataset then Inr None
    else if load ds U10 = Lacks \<or> load ds V10 = Lacks then Inl KeyError
    else
      bind_err (map_err utc_window intervals) (\<lambda>ws.
      Inr (Some (map (\<lambda>w. get_wdir_window (wind_sel ds w)) ws))))"

definition get_uvg_by_3h :: "dataset \<Rightarrow> string \<Rightarrow> error + real option list option" where
  \<comment> \<open>an entry is \<open>None\<close> for the \<open>None\<close> of an empty slice and for a NaN scale\<close>
  "get_uvg_by_3h ds time_str =
    (if load ds I10FG = NoDataset then Inr None
     else if load ds I10FG = Lacks then Inl KeyError
     else
       bind_err (generate_three_hour_intervals time_str) (\<lambda>intervals.
       bind_err
         (map_err (\<lambda>iv.
            bind_err (utc_window iv) (\<lambda>w.
            if gust_sel ds w = [] then Inr None
            else ws2scale_city (list_max (gust_sel ds w)))) intervals)
         (\<lambda>uvg_list. Inr (Some uvg_list))))"

definition cloud_code :: "real option \<Rightarrow> real option \<Rightarrow> nat" where
  \<comment> \<open>lines 340 to 345 on \<open>meantcc\<close> and \<open>meanlcc\<close>\<close>
  "cloud_code meantcc meanlcc =
    (if (nan_gt meantcc 80 \<and> nan_gt meanlcc 40) \<or> nan_gt meantcc 90 \<or> nan_gt meanlcc 90 then 2
     else if nan_gt meanlcc 15 \<or> nan_gt meantcc 40 then 1
     else 0)"

definition get_cloud_by_3h :: "dataset \<Rightarrow> string \<Rightarrow> error + nat list option" where
  \<comment> \<open>the datasets are indexed, and the pressure levels tested, inside the loop: a
      lacking variable raises, and missing levels return \<open>None\<close>, in the first pass\<close>
  "get_cloud_by_3h ds time_str =
    (if load ds TCC = NoDataset \<or> load ds LCC = NoDataset \<or> load ds R = NoDataset
        \<or> load ds TP = NoDataset then Inr None
     else
       bind_err (generate_three_hour_intervals time_str) (\<lambda>intervals.
       if intervals = [] then Inr (Some [])
       else
         bind_err (utc_window (hd intervals)) (\<lambda>w0.
         if load ds TCC = Lacks \<or> load ds LCC = Lacks \<or> load ds TP = Lacks \<or> load ds R = Lacks
         then Inl KeyError
         else if \<not> has_levels ds then Inr None
         else
           bind_err (map_err utc_window intervals) (\<lambda>ws.
           Inr (Some (map (\<lambda>w. cloud_code (fst (cloud_sel ds w)) (snd (cloud_sel ds w))) ws))))))"

section \<open>Precipitation per start time: \<open>get_rain_by_3h\<close>\<close>

definition ord2ymd :: "int \<Rightarrow> int \<times> int \<times> int" where
  \<comment> \<open>year, month and day of a proleptic Gregorian ordinal, as the library computes them\<close>
  "ord2ymd ordinal =
    (let n = ordinal - 1;
         n400 = n div 146097; n = n mod 146097;
         n100 = n div 36524; n = n mod 36524;
         n4 = n div 1461; n = n mod 1461;
         n1 = n div 365; n = n mod 365;
         year = n400 * 400 + 1 + n100 * 100 + n4 * 4 + n1
     in if n1 = 4 \<or> n100 = 4 then (year - 1, 12, 31)
        else
          (let month = (n + 50) div 32;
               preceding = days_before_month year month
           in if preceding > n
              then (year, month - 1, n - (preceding - days_in_month year (month - 1)) + 1)
              else (year, month, n - preceding + 1)))"

definition month_of :: "naive \<Rightarrow> int" where
  \<comment> \<open>\<open>t.month\<close>\<close>
  "month_of t = fst (snd (ord2ymd (date_of t + 1)))"

definition get_rain_by_3h ::
  "dataset \<Rightarrow> string \<Rightarrow> error + (real \<times> real \<times> real) list option" where
  \<comment> \<open>the three lists the source returns are one list of triples
      \<open>(ifrain, tpmax, rain_percent)\<close>; \<open>None\<close> is \<open>(None, None, None)\<close>. The call
      of \<open>strptime\<close> is not guarded here, and the loop is written a second time. A
      dataset that lacks its variable fails at \<open>tp_ds["tp"] * 1000\<close>.\<close>
  "get_rain_by_3h ds time_str =
    (case strptime time_str of
       None \<Rightarrow> Inl ValueError
     | Some start_time_bjt \<Rightarrow>
         bind_err (dt_add start_time_bjt 86400) (\<lambda>next_day.
         bind_err (intervals_loop start_time_bjt
                     (combine_min_time (date_of next_day) + 20 * 3600) []) (\<lambda>intervals.
         if load ds TP = NoDataset \<or> load ds SF = NoDataset \<or> load ds CP = NoDataset
         then Inr None
         else if load ds TP = Lacks \<or> load ds SF = Lacks \<or> load ds CP = Lacks then Inl KeyError
         else
           bind_err
             (map_err (\<lambda>iv.
                bind_err (utc_window iv) (\<lambda>w.
                Inr (get_rain_window (month_of (fst iv)) (rain_sel ds w)))) intervals)
             (\<lambda>rows. Inr (Some rows)))))"

section \<open>The main loop\<close>

record row =
  fsttime :: naive
  max_temp_c :: "real option"
  min_temp_c :: "real option"
  rhmin :: "real option"
  rhmax :: "real option"
  wdir :: "real option"
  uvg :: "real option"
  cloud :: "nat option"
  ifrain :: real
  tpmax :: real
  rain_percent :: real

definition column :: "'a option list option \<Rightarrow> nat \<Rightarrow> 'a option" where
  \<comment> \<open>entry \<open>i\<close> of a column; a column that is \<open>None\<close> is a scalar that pandas repeats\<close>
  "column c i = (case c of None \<Rightarrow> None | Some xs \<Rightarrow> xs ! i)"

definition column_len :: "'a list option \<Rightarrow> nat \<Rightarrow> nat" where
  "column_len c n = (case c of None \<Rightarrow> n | Some xs \<Rightarrow> length xs)"

definition DataFrame ::
  "naive list \<Rightarrow> real option list \<Rightarrow> real option list \<Rightarrow> real option \<Rightarrow> real option \<Rightarrow>
   real option list option \<Rightarrow> real option list option \<Rightarrow> nat list option \<Rightarrow>
   (real \<times> real \<times> real) list \<Rightarrow> error + row list" where
  \<comment> \<open>\<open>pd.DataFrame\<close> of a dict of columns: \<open>ValueError\<close> unless all lists have one
      length; \<open>[rh_min] * len(time_intervals_bjt)\<close> has the length of the first column\<close>
  "DataFrame time_intervals_bjt max_temps_c min_temps_c rh_min rh_max wdir_list uvg_list
      cloud_list rain_rows =
    (let n = length time_intervals_bjt in
     if length max_temps_c = n \<and> length min_temps_c = n \<and> column_len wdir_list n = n
        \<and> column_len uvg_list n = n \<and> column_len cloud_list n = n \<and> length rain_rows = n
     then
       Inr (map (\<lambda>i.
         \<lparr> fsttime = time_intervals_bjt ! i,
           max_temp_c = max_temps_c ! i,
           min_temp_c = min_temps_c ! i,
           rhmin = rh_min,
           rhmax = rh_max,
           wdir = column wdir_list i,
           uvg = column uvg_list i,
           cloud = column (map_option (map Some) cloud_list) i,
           ifrain = fst (rain_rows ! i),
           tpmax = fst (snd (rain_rows ! i)),
           rain_percent = snd (snd (rain_rows ! i)) \<rparr>) [0 ..< n])
     else Inl ValueError)"

definition process_start ::
  "(real \<Rightarrow> real \<Rightarrow> real) \<Rightarrow> dataset \<Rightarrow> string \<Rightarrow> error + row list option" where
  \<comment> \<open>the body of \<open>for hour in hours_to_run\<close>: an exception, \<open>None\<close> for the
      \<open>continue\<close> after \<open>if not ifrain_list\<close>, or the table that \<open>to_csv\<close> writes.
      The source passes the two slices \<open>DEFAULT_TARGET_LAT\<close> and \<open>DEFAULT_TARGET_LON\<close>
      to \<open>get_rh_by_days\<close>, and the two labels to the other extractors.\<close>
  "process_start rh_fn ds start_time =
    bind_err (generate_three_hour_intervals start_time) (\<lambda>intervals.
    bind_err (get_temperature_by_3h ds start_time) (\<lambda>temps.
    bind_err (get_rh_by_days_sel Range rh_fn ds start_time) (\<lambda>rh.
    bind_err (get_wdir_by_3h ds start_time) (\<lambda>wdir_list.
    bind_err (get_uvg_by_3h ds start_time) (\<lambda>uvg_list.
    bind_err (get_cloud_by_3h ds start_time) (\<lambda>cloud_list.
    bind_err (get_rain_by_3h ds start_time) (\<lambda>rain_rows.
    if rain_rows = None \<or> rain_rows = Some [] then Inr None
    else
      bind_err (DataFrame (map fst intervals) (fst temps) (snd temps) (fst rh) (snd rh)
                  wdir_list uvg_list cloud_list (the rain_rows)) (\<lambda>data.
      Inr (Some data)))))))))"

fun main_loop ::
  "(real \<Rightarrow> real \<Rightarrow> real) \<Rightarrow> (string \<times> dataset) list \<Rightarrow>
   (string \<times> row list) list \<times> error option" where
  \<comment> \<open>the start times of the run in order, each with the dataset as its extractors read
      it; the result is the tables written, and the exception that ended the run if one
      did\<close>
  "main_loop rh_fn [] = ([], None)"
| "main_loop rh_fn ((start_time, ds) # rest) =
    (case process_start rh_fn ds start_time of
       Inl e \<Rightarrow> ([], Some e)
     | Inr None \<Rightarrow> main_loop rh_fn rest
     | Inr (Some data) \<Rightarrow>
         (case main_loop rh_fn rest of (files, r) \<Rightarrow> ((start_time, data) # files, r)))"

section \<open>Inputs of the worked examples\<close>

definition dry_cell :: cell where
  "dry_cell = \<lparr>tp = Some 0, sf = Some 0, cp = Some 0\<rparr>"

definition rain_cell :: cell where
  "rain_cell = \<lparr>tp = Some 6, sf = Some 0, cp = Some 0\<rparr>"

definition sparse_rain_window :: "cell list" where
  \<comment> \<open>one cell of 6 mm of rain among 25 cells: 4 percent of the cells\<close>
  "sparse_rain_window = rain_cell # replicate 24 dry_cell"

definition winter_stats :: stats where
  "winter_stats =
    \<lparr> count_precip = 10, count_total = 10, count_sleet = 0, count_snow = 0,
      count_rain = 10, count_thunder = 0, count_drizzle = 0,
      max_rain = Some 6, max_snow = None, max_sleet = None \<rparr>"

definition rh_percent :: "(real \<Rightarrow> real \<Rightarrow> real) \<Rightarrow> real \<times> real \<Rightarrow> real" where
  \<comment> \<open>the relative humidity in percent of one sample of \<open>t2m\<close> and \<open>d2m\<close> in Kelvin\<close>
  "rh_percent rh_fn s = rh_fn (fst s - 273.15) (snd s - 273.15) * 100"

definition healthy :: dataset where
  \<comment> \<open>every variable is read; no wind cell and no precipitation cell is selected\<close>
  "healthy =
    \<lparr> load = (\<lambda>v. Holds), has_levels = True, t2m_sel = (\<lambda>w. [280, 285]),
      point_sel = (\<lambda>w. [(283.15, 278.15), (285.15, 279.15)]), wind_sel = (\<lambda>w. []),
      gust_sel = (\<lambda>w. [3]), cloud_sel = (\<lambda>w. (Some 50, Some 20)), rain_sel = (\<lambda>w. []) \<rparr>"

definition humid :: dataset where
  \<comment> \<open>a dewpoint half a degree above a temperature of 10 degrees Celsius\<close>
  "humid = healthy\<lparr>point_sel := (\<lambda>w. [(283.15, 283.65)])\<rparr>"

definition no_t2m :: dataset where
  \<comment> \<open>the loader returns \<open>None\<close> for \<open>t2m\<close>\<close>
  "no_t2m = healthy\<lparr>load := (\<lambda>v. if v = T2M then NoDataset else Holds)\<rparr>"

definition lacks_t2m :: dataset where
  \<comment> \<open>the file opens and has no field \<open>t2m\<close>: the loader returns a dataset without it\<close>
  "lacks_t2m = healthy\<lparr>load := (\<lambda>v. if v = T2M then Lacks else Holds)\<rparr>"

definition no_tp :: dataset where
  \<comment> \<open>the loader returns \<open>None\<close> for \<open>tp\<close>\<close>
  "no_tp = healthy\<lparr>load := (\<lambda>v. if v = TP then NoDataset else Holds)\<rparr>"

definition unreadable :: dataset where
  \<comment> \<open>the loader returns \<open>None\<close> for every variable\<close>
  "unreadable = healthy\<lparr>load := (\<lambda>v. NoDataset)\<rparr>"

definition opposed_cells :: "wind_cell list" where
  \<comment> \<open>a north-east wind and a north-west wind of the same strength\<close>
  "opposed_cells = [\<lparr>u10 = [-1], v10 = [-1]\<rparr>, \<lparr>u10 = [1], v10 = [-1]\<rparr>]"

definition evening :: string where
  "evening = ''2021-01-01T20:00:00''"

definition evening_windows :: "window list" where
  "evening_windows =
    [(63745128000, 63745138800), (63745138800, 63745149600),
     (63745149600, 63745160400), (63745160400, 63745171200),
     (63745171200, 63745182000), (63745182000, 63745192800),
     (63745192800, 63745203600), (63745203600, 63745214400)]"

section \<open>Properties of the gust scale\<close>

text \<open>
  C3. At the sentinel 32767 the claim wants an explicit, defined "undefined" result and
  no unbound-variable failure. The source leaves \<open>scale\<close> unassigned there and raises
  \<open>UnboundLocalError\<close> at \<open>return scale\<close>.
\<close>

theorem ws2scale_city_sentinel_unbound:
  "ws2scale_city 32767 = Inl UnboundLocalError"
  by (simp add: ws2scale_city_def undef_def)

text \<open>
  C9. On the defined domain the scale does not decrease with the speed: for
  \<open>0 \<le> a \<le> b < 61.3\<close> both calls return a number and the one for \<open>a\<close> is at most
  the one for \<open>b\<close>.
\<close>

theorem ws2scale_city_mono:
  "0 \<le> a \<Longrightarrow> a \<le> b \<Longrightarrow> b < 61.3 \<Longrightarrow> scale_le (ws2scale_city a) (ws2scale_city b)"
  unfolding ws2scale_city_def undef_def scale_le_def
  by (simp split: if_splits)

theorem ws2scale_city_mono_witness:
  "(0::real) \<le> 29.7 \<and> (29.7::real) \<le> 30 \<and> (30::real) < 61.3
   \<and> scale_le (ws2scale_city 29.7) (ws2scale_city 30)"
  using ws2scale_city_mono [of "29.7" 30] by simp

section \<open>Properties of the precipitation classifier\<close>

text \<open>
  C1, as the source has it. The code is 0 exactly when no cell precipitates or none of
  the types the season's branches test (thunder, drizzle and rain in summer; snow, sleet
  and rain in winter) reaches 5 percent of the cells. A window with no precipitating
  cell therefore has code 0, but the converse fails.
\<close>

theorem ifrain_zero_iff:
  "fst (get_rain_window mon cells) = 0 \<longleftrightarrow>
     count_precip (window_stats mon cells) = 0 \<or> no_type_present mon (window_stats mon cells)"
  unfolding get_rain_window_def ifrain_of_def no_type_present_def Let_def
  by (simp split: if_splits)

lemmas classifier_defs =
  get_rain_window_def window_stats_def ifrain_of_def no_type_present_def Let_def
  mask_tp_def summer_def nan_ge_def nan_gt_def nan_lt_def nan_sub_def rain_def snow_def
  sleet_def thunder_def drizzle_def count_valid_def present_def rain_percent_of_def
  sparse_rain_window_def rain_cell_def dry_cell_def

theorem ifrain_zero_iff_witness:
  "fst (get_rain_window 1 sparse_rain_window) = 0
   \<and> count_precip (window_stats 1 sparse_rain_window) = 1
   \<and> no_type_present 1 (window_stats 1 sparse_rain_window)"
  using ifrain_zero_iff [of 1 sparse_rain_window]
  by (simp add: classifier_defs)

text \<open>
  The claim C1 as it is written fails: in July one raining cell among 25 is a
  precipitating cell, and the code is 0.
\<close>

theorem ifrain_zero_with_precip:
  "\<not> (fst (get_rain_window 7 sparse_rain_window) = 0
        \<longleftrightarrow> count_precip (window_stats 7 sparse_rain_window) = 0)"
  by (simp add: classifier_defs)

text \<open>
  C10. Outside April to October the code does not depend on the thunder count: two
  windows with the same counts and maxima, whatever their thunder counts, get the same
  code.
\<close>

theorem winter_ifrain_ignores_thunder:
  "\<not> summer mon \<Longrightarrow>
   ifrain_of mon (st\<lparr>count_thunder := a\<rparr>) = ifrain_of mon (st\<lparr>count_thunder := b\<rparr>)"
  unfolding ifrain_of_def Let_def rain_percent_of_def present_def
  by simp

theorem winter_ifrain_ignores_thunder_witness:
  "\<not> summer 1
   \<and> ifrain_of 1 (winter_stats\<lparr>count_thunder := 0\<rparr>) = ifrain_of 1 (winter_stats\<lparr>count_thunder := 10\<rparr>)"
  using winter_ifrain_ignores_thunder [where mon = 1 and st = winter_stats and a = 0 and b = 10]
  by (simp add: summer_def)

text \<open>In summer the thunder count decides between the codes 1.x and 3.x.\<close>

lemma summer_ifrain_reads_thunder:
  "ifrain_of 7 (winter_stats\<lparr>count_thunder := 0\<rparr>) = 1.0
   \<and> ifrain_of 7 (winter_stats\<lparr>count_thunder := 10\<rparr>) = 3.0"
  by (simp add: ifrain_of_def Let_def rain_percent_of_def present_def summer_def
      winter_stats_def nan_ge_def)

section \<open>Properties of the time window generator\<close>

lemma loop_inv:
  "c \<le> b \<Longrightarrow> 0 \<le> c \<Longrightarrow> b + 3 * 3600 \<le> max_seconds \<Longrightarrow>
   \<exists>ws. intervals_loop c b acc = Inr (acc @ ws) \<and> contiguous c ws b"
proof (induction c b acc rule: intervals_loop.induct)
  case (1 c b acc)
  show ?case
  proof (cases "c < b")
    case False
    with "1.prems" have "c = b" by simp
    then show ?thesis by (simp add: intervals_loop.simps)
  next
    case True
    define e where "e = (if c + 3 * 3600 > b then b else c + 3 * 3600)"
    have add: "dt_add c (3 * 3600) = Inr (c + 3 * 3600)"
      using True "1.prems" by (simp add: dt_add_def)
    have e: "c < e" "e \<le> b" "e - c \<le> 3 * 3600" using True by (auto simp: e_def)
    have "\<exists>ws. intervals_loop e b (acc @ [(c, e)]) = Inr ((acc @ [(c, e)]) @ ws) \<and> contiguous e ws b"
      using "1.IH"[OF True add, of e] e "1.prems" by (simp add: e_def)
    then obtain ws where ws: "intervals_loop e b (acc @ [(c, e)]) = Inr ((acc @ [(c, e)]) @ ws)"
       "contiguous e ws b" by blast
    have "intervals_loop c b acc = intervals_loop e b (acc @ [(c, e)])"
      using True add by (subst intervals_loop.simps) (simp add: e_def Let_def)
    with ws e show ?thesis
      by (intro exI[of _ "(c, e) # ws"]) simp
  qed
qed

lemma contiguous_le: "contiguous a ws b \<Longrightarrow> a \<le> b"
proof (induction ws arbitrary: a)
  case Nil then show ?case by simp
next
  case (Cons w ws)
  then have "snd w \<le> b" "a < snd w" by auto
  then show ?case by simp
qed

lemma contiguous_union: "contiguous a ws b \<Longrightarrow> (\<Union>w \<in> set ws. {fst w ..< snd w}) = {a ..< b}"
proof (induction ws arbitrary: a)
  case Nil then show ?case by simp
next
  case (Cons w ws)
  then have "snd w \<le> b" "a < snd w" "fst w = a" by (auto dest: contiguous_le)
  moreover have "(\<Union>w \<in> set ws. {fst w ..< snd w}) = {snd w ..< b}" using Cons by simp
  ultimately show ?case by auto
qed

lemma contiguous_hd: "contiguous a ws b \<Longrightarrow> ws \<noteq> [] \<Longrightarrow> fst (hd ws) = a"
  by (cases ws) auto

lemma contiguous_last: "contiguous a ws b \<Longrightarrow> ws \<noteq> [] \<Longrightarrow> snd (last ws) = b"
proof (induction ws arbitrary: a)
  case Nil then show ?case by simp
next
  case (Cons w ws)
  show ?case
  proof (cases ws)
    case Nil
    with Cons.prems show ?thesis by simp
  next
    case (Cons v vs)
    then have "snd (last ws) = b" using Cons.IH[of "snd w"] Cons.prems by simp
    with Cons show ?thesis by simp
  qed
qed

lemma contiguous_span: "contiguous a ws b \<Longrightarrow> i < length ws \<Longrightarrow> fst (ws ! i) < snd (ws ! i) \<and> snd (ws ! i) - fst (ws ! i) \<le> 3 * 3600"
proof (induction ws arbitrary: a i)
  case Nil then show ?case by simp
next
  case (Cons w ws) then show ?case by (cases i) auto
qed

lemma contiguous_adjacent: "contiguous a ws b \<Longrightarrow> Suc i < length ws \<Longrightarrow> snd (ws ! i) = fst (ws ! Suc i)"
proof (induction ws arbitrary: a i)
  case Nil then show ?case by simp
next
  case (Cons w ws)
  show ?case
  proof (cases i)
    case 0
    with Cons.prems show ?thesis by (cases ws) auto
  next
    case (Suc j)
    with Cons show ?thesis by auto
  qed
qed

lemma contiguous_lower: "contiguous a ws b \<Longrightarrow> k < length ws \<Longrightarrow> a \<le> fst (ws ! k)"
proof (induction ws arbitrary: a k)
  case Nil then show ?case by simp
next
  case (Cons w ws)
  show ?case
  proof (cases k)
    case 0 with Cons.prems show ?thesis by simp
  next
    case (Suc j)
    then have "snd w \<le> fst (ws ! j)" using Cons.IH [of "snd w" j] Cons.prems by simp
    with Cons.prems Suc show ?thesis by simp
  qed
qed

lemma contiguous_ordered:
  "contiguous a ws b \<Longrightarrow> i < j \<Longrightarrow> j < length ws \<Longrightarrow> snd (ws ! i) \<le> fst (ws ! j)"
proof (induction ws arbitrary: a i j)
  case Nil then show ?case by simp
next
  case (Cons w ws)
  from Cons.prems(2) obtain j' where j: "j = Suc j'" by (cases j) auto
  show ?case
  proof (cases i)
    case 0
    with Cons.prems j show ?thesis using contiguous_lower [of "snd w" ws b j'] by simp
  next
    case (Suc i')
    with Cons.prems j show ?thesis using Cons.IH [of "snd w" i' j'] by simp
  qed
qed

lemma days_before_year_nonneg:
  assumes "1 \<le> y"
  shows "0 \<le> days_before_year y"
proof -
  have n: "0 \<le> y - 1" using assms by simp
  have "(y - 1) div 100 \<le> (y - 1) div 4"
    using n by (intro zdiv_mono2) simp_all
  moreover have "0 \<le> (y - 1) div 400" using n by simp
  moreover have "0 \<le> (y - 1) * 365" using n by simp
  ultimately show ?thesis unfolding days_before_year_def by linarith
qed

lemma days_in_month_pos: "0 \<le> days_in_month y m"
  by (simp add: days_in_month_def)

lemma days_before_month_nonneg: "0 \<le> days_before_month y m"
  unfolding days_before_month_def by (rule sum_list_nonneg) (auto simp: days_in_month_def)

lemma mk_datetime_nonneg:
  assumes "mk_datetime y m d H M S = Some t"
  shows "0 \<le> t"
proof -
  have c: "1 \<le> y \<and> 1 \<le> d \<and> 0 \<le> H \<and> 0 \<le> M \<and> 0 \<le> S
      \<and> t = (ymd2ord y m d - 1) * 86400 + H * 3600 + M * 60 + S"
    using assms unfolding mk_datetime_def by (cases "1 \<le> y \<and> y \<le> 9999 \<and> 1 \<le> m \<and> m \<le> 12 \<and> 1 \<le> d \<and> d \<le> days_in_month y m
        \<and> 0 \<le> H \<and> H \<le> 23 \<and> 0 \<le> M \<and> M \<le> 59 \<and> 0 \<le> S \<and> S \<le> 59") simp_all
  have "1 \<le> ymd2ord y m d"
    using c days_before_year_nonneg[of y] days_before_month_nonneg[of y m]
    by (simp add: ymd2ord_def)
  then have "0 \<le> (ymd2ord y m d - 1) * 86400" by simp
  with c show ?thesis by linarith
qed

lemma strptime_nonneg: "strptime s = Some t \<Longrightarrow> 0 \<le> t"
  unfolding strptime_def
  by (auto simp: Option.bind_eq_Some_conv split: if_splits dest: mk_datetime_nonneg)

text \<open>
  C2, for every start but the last day of the calendar. When the start string parses
  to \<open>t0\<close> and \<open>t0\<close> is before 9999-12-31, the generator returns windows that begin
  at \<open>t0\<close>, follow each other without gap, are in order and do not overlap (a later
  window starts no earlier than an earlier one ends), are not empty, span at most three
  hours each, end at 20:00 of the next day, and cover exactly the instants from \<open>t0\<close>
  up to that cutoff.
\<close>

theorem generate_three_hour_intervals_partition:
  assumes "strptime s = Some t0" and "t0 < max_seconds - 86400"
  shows "\<exists>ws. generate_three_hour_intervals s = Inr ws
    \<and> ws \<noteq> [] \<and> fst (hd ws) = t0 \<and> snd (last ws) = daily_cutoff t0
    \<and> (\<forall>i < length ws. fst (ws ! i) < snd (ws ! i) \<and> snd (ws ! i) - fst (ws ! i) \<le> 3 * 3600)
    \<and> (\<forall>i. Suc i < length ws \<longrightarrow> snd (ws ! i) = fst (ws ! Suc i))
    \<and> (\<forall>i j. i < j \<and> j < length ws \<longrightarrow> snd (ws ! i) \<le> fst (ws ! j))
    \<and> (\<Union>w \<in> set ws. {fst w ..< snd w}) = {t0 ..< daily_cutoff t0}"
proof -
  define b where "b = daily_cutoff t0"
  have t0: "0 \<le> t0" using assms(1) by (rule strptime_nonneg)
  have day: "(t0 + 86400) div 86400 = t0 div 86400 + 1" by simp
  have d1: "t0 div 86400 * 86400 \<le> t0" "t0 < t0 div 86400 * 86400 + 86400"
    using div_mult_mod_eq [of t0 86400] pos_mod_bound [of 86400 t0] pos_mod_sign [of 86400 t0]
    by linarith+
  have lt: "t0 < b" using d1 by (simp add: b_def daily_cutoff_def)
  have "t0 div 86400 * 86400 < 3652058 * 86400"
    using d1(1) assms(2) by (simp add: max_seconds_def)
  then have q: "t0 div 86400 \<le> 3652057" by linarith
  have top: "b + 3 * 3600 \<le> max_seconds"
    using q by (simp add: b_def daily_cutoff_def max_seconds_def)
  have a1: "dt_add t0 86400 = Inr (t0 + 86400)"
    using t0 assms(2) by (simp add: dt_add_def)
  have a2: "dt_add (combine_min_time (date_of (t0 + 86400))) (20 * 3600) = Inr b"
    using t0 top lt by (simp add: dt_add_def combine_min_time_def date_of_def day b_def daily_cutoff_def)
  have gen: "generate_three_hour_intervals s = intervals_loop t0 b []"
    using assms(1) a1 a2 by (simp add: generate_three_hour_intervals_def)
  obtain ws where ws: "intervals_loop t0 b [] = Inr ([] @ ws)" "contiguous t0 ws b"
    using loop_inv [of t0 b "[]"] lt t0 top by auto
  have ne: "ws \<noteq> []" using ws(2) lt by (cases ws) auto
  show ?thesis
    unfolding b_def [symmetric]
    using gen ws ne contiguous_hd [OF ws(2)] contiguous_last [OF ws(2)]
      contiguous_span [OF ws(2)] contiguous_adjacent [OF ws(2)] contiguous_union [OF ws(2)]
      contiguous_ordered [OF ws(2)]
    by (intro exI [of _ ws]) simp
qed

theorem generate_three_hour_intervals_partition_witness:
  "strptime ''2021-01-01T05:00:00'' = Some 63745074000
   \<and> (63745074000 :: int) < max_seconds - 86400
   \<and> daily_cutoff 63745074000 = 63745214400
   \<and> (\<exists>ws. generate_three_hour_intervals ''2021-01-01T05:00:00'' = Inr ws
        \<and> fst (hd ws) = 63745074000 \<and> snd (last ws) = 63745214400
        \<and> (\<Union>w \<in> set ws. {fst w ..< snd w}) = {63745074000 ..< 63745214400})"
proof -
  have p: "strptime ''2021-01-01T05:00:00'' = Some 63745074000" by code_simp
  have r: "(63745074000 :: int) < max_seconds - 86400" by (simp add: max_seconds_def)
  have c: "daily_cutoff 63745074000 = 63745214400" by (simp add: daily_cutoff_def)
  show ?thesis
    using generate_three_hour_intervals_partition [OF p r] p r c by auto
qed

text \<open>
  The claim C2 as it is written fails on the last day of the calendar: the start
  parses, and adding one day to it raises \<open>OverflowError\<close>.
\<close>

theorem generate_three_hour_intervals_last_day:
  "strptime ''9999-12-31T05:00:00'' = Some 315537829200
   \<and> generate_three_hour_intervals ''9999-12-31T05:00:00'' = Inl OverflowError"
  by code_simp

text \<open>
  C8, as the source has it. A start string that does not parse makes the generator
  return the empty list of windows; it raises nothing.
\<close>

theorem generate_three_hour_intervals_unparsed:
  "strptime s = None \<Longrightarrow> generate_three_hour_intervals s = Inr []"
  by (simp add: generate_three_hour_intervals_def)

theorem generate_three_hour_intervals_unparsed_witness:
  "strptime ''2021-02-29T05:00:00'' = None
   \<and> generate_three_hour_intervals ''2021-02-29T05:00:00'' = Inr []"
proof -
  have p: "strptime ''2021-02-29T05:00:00'' = None" by code_simp
  show ?thesis using generate_three_hour_intervals_unparsed [OF p] p by simp
qed

text \<open>
  The claim C8 as it is written fails: month 13 does not parse, and the generator
  returns normally, with no error.
\<close>

theorem generate_three_hour_intervals_no_error:
  "strptime ''2021-13-01T05:00:00'' = None
   \<and> \<not> isl (generate_three_hour_intervals ''2021-13-01T05:00:00'')
   \<and> generate_three_hour_intervals ''2021-13-01T05:00:00'' = Inr []"
  by code_simp

section \<open>Properties of the civil-time converter\<close>

lemma shanghai_info_modern: "62820464400 \<le> u \<Longrightarrow> shanghai_info u = (28800, False)"
  by (simp add: shanghai_info_def shanghai_transitions_def)

lemma localize_offset_modern: "62820496800 \<le> w \<Longrightarrow> localize_offset w = 28800"
  by (simp add: localize_offset_def readings_def pick_reading_def shanghai_info_modern)

lemma to_utc_modern:
  "62820496800 \<le> t \<Longrightarrow> t < max_seconds \<Longrightarrow> to_utc t = Inr (t - 28800)"
  by (simp add: to_utc_def beijing_to_utc_def localize_offset_modern dt_add_def bind_err_def
      max_seconds_def)




section \<open>Properties of the wind direction\<close>

lemma nanmean_Some: "nanmean (map (\<lambda>c. Some (f c)) cs) = mean (map f cs)"
proof -
  have "filter (\<lambda>x. x \<noteq> None) (map (\<lambda>c. Some (f c)) cs) = map (\<lambda>c. Some (f c)) cs"
    by (induction cs) auto
  then show ?thesis by (simp add: nanmean_def comp_def)
qed

lemma sum_list_affine:
  "sum_list (map (\<lambda>c. a + f c * k) cs) = a * real (length cs) + sum_list (map f cs) * (k :: real)"
  by (induction cs) (simp_all add: algebra_simps)

lemma direction_of_cell:
  "u10 c \<noteq> [] \<Longrightarrow> v10 c \<noteq> [] \<Longrightarrow>
   direction (mean (u10 c)) (mean (v10 c)) = Some (180 + angle c * (180 / pi))"
  by (simp add: direction_def mean_def angle_def)

text \<open>
  C6, as the source has it. When every cell of a region has wind data in the window,
  the output is 180 plus the spatial mean of the per-cell angles
  \<open>atan2(u, v)\<close> of the time-mean vectors, in degrees: the direction is taken per
  cell and the directions are averaged. For a region of one cell this is the direction
  of the averaged vector.
\<close>

theorem get_wdir_window_averages_directions:
  assumes "cells \<noteq> []" and "\<forall>c \<in> set cells. u10 c \<noteq> [] \<and> v10 c \<noteq> []"
  shows "get_wdir_window cells
           = Some (180 + sum_list (map angle cells) / real (length cells) * (180 / pi))
       \<and> (length cells = 1 \<longrightarrow> get_wdir_window cells = spec_wdir_window cells)"
proof -
  have m: "map (\<lambda>c. direction (mean (u10 c)) (mean (v10 c))) cells
         = map (\<lambda>c. Some (180 + angle c * (180 / pi))) cells"
    using assms(2) by (intro map_cong refl direction_of_cell) auto
  have n: "real (length cells) \<noteq> 0" using assms(1) by simp
  have "get_wdir_window cells = mean (map (\<lambda>c. 180 + angle c * (180 / pi)) cells)"
    unfolding get_wdir_window_def m by (rule nanmean_Some)
  also have "\<dots> = Some ((180 * real (length cells) + sum_list (map angle cells) * (180 / pi))
                       / real (length cells))"
    using assms(1) sum_list_affine [of 180 angle "180 / pi" cells] by (simp add: mean_def)
  also have "(180 * real (length cells) + sum_list (map angle cells) * (180 / pi)) / real (length cells)
           = 180 + sum_list (map angle cells) / real (length cells) * (180 / pi)"
    using n by (simp add: field_simps)
  finally have a: "get_wdir_window cells
           = Some (180 + sum_list (map angle cells) / real (length cells) * (180 / pi))" .
  have b: "get_wdir_window cells = spec_wdir_window cells" if "length cells = 1"
  proof -
    from that obtain c where c: "cells = [c]" by (cases cells) auto
    with assms(2) have "u10 c \<noteq> []" "v10 c \<noteq> []" by auto
    then show ?thesis
      by (simp add: c get_wdir_window_def spec_wdir_window_def nanmean_def mean_def direction_def)
  qed
  from a b show ?thesis by blast
qed

lemma arctan2_vals:
  "arctan2 (-1) (-1) = - (3 * pi / 4)" "arctan2 1 (-1) = 3 * pi / 4" "arctan2 0 (-1) = pi"
  by (simp_all add: arctan2_def arctan_one arctan_minus)

theorem get_wdir_window_averages_directions_witness:
  "opposed_cells \<noteq> [] \<and> get_wdir_window opposed_cells
      = Some (180 + sum_list (map angle opposed_cells) / real (length opposed_cells) * (180 / pi))"
  using get_wdir_window_averages_directions [of opposed_cells]
  by (simp add: opposed_cells_def)

text \<open>
  The claim C6 as it is written fails: for a north-east and a north-west wind of equal
  strength the source gives 180 degrees, and the direction of the averaged vector is
  360 degrees.
\<close>

theorem get_wdir_window_not_vector_mean:
  "get_wdir_window opposed_cells = Some 180 \<and> spec_wdir_window opposed_cells = Some 360"
  by (simp add: get_wdir_window_def spec_wdir_window_def opposed_cells_def nanmean_def mean_def
      direction_def arctan2_vals)

section \<open>The start of the evening of 2021-01-01\<close>

lemma ex_parse: "strptime evening = Some 63745128000"
  unfolding evening_def by code_simp

lemma ex_iv: "generate_three_hour_intervals evening = Inr evening_windows"
  unfolding evening_def evening_windows_def by code_simp

lemma ex_loop: "intervals_loop 63745128000 63745214400 [] = Inr evening_windows"
  unfolding evening_windows_def by code_simp

lemma ex_utc:
  "map_err utc_window evening_windows
     = Inr (map (\<lambda>(a, b). (a - 28800, b - 28800)) evening_windows)"
  by (simp add: evening_windows_def utc_window_def to_utc_modern bind_err_def max_seconds_def)

lemma ex_utc_hd: "utc_window (hd evening_windows) = Inr (63745099200, 63745110000)"
  by (simp add: evening_windows_def utc_window_def to_utc_modern bind_err_def max_seconds_def)

lemma ex_day: "to_utc (fst (hd evening_windows)) = Inr 63745099200"
  "to_utc (snd (last evening_windows)) = Inr 63745185600" "evening_windows \<noteq> []"
  by (simp_all add: evening_windows_def to_utc_modern max_seconds_def)

section \<open>Properties of the humidity range\<close>

lemma list_max_Max: "xs \<noteq> [] \<Longrightarrow> list_max xs = Max (set xs)"
proof (cases xs)
  case (Cons a l)
  show ?thesis unfolding Cons list_max_def using Max.set_eq_fold [of a l] by simp
qed simp

lemma list_min_Min: "xs \<noteq> [] \<Longrightarrow> list_min xs = Min (set xs)"
proof (cases xs)
  case (Cons a l)
  show ?thesis unfolding Cons list_min_def using Min.set_eq_fold [of a l] by simp
qed simp

text \<open>
  C5, as the source has it. When the day has samples and both variables are read,
  \<open>rhmin\<close> and \<open>rhmax\<close> are the least and the greatest, over all sampled instants
  of the day, of 100 times what \<open>relative_humidity_from_dewpoint\<close> returns for the
  temperature and the dewpoint in Celsius. The source clips nothing.
\<close>

theorem get_rh_by_days_min_max:
  assumes "generate_three_hour_intervals s = Inr ivs" and "ivs \<noteq> []"
    and "to_utc (fst (hd ivs)) = Inr a" and "to_utc (snd (last ivs)) = Inr b"
    and "has ds T2M" and "has ds D2M" and "point_sel ds (a, b) \<noteq> []"
  shows "\<exists>lo hi. get_rh_by_days rh_fn ds s = Inr (Some lo, Some hi)
      \<and> lo \<in> rh_percent rh_fn ` set (point_sel ds (a, b))
      \<and> hi \<in> rh_percent rh_fn ` set (point_sel ds (a, b))
      \<and> (\<forall>v \<in> rh_percent rh_fn ` set (point_sel ds (a, b)). lo \<le> v \<and> v \<le> hi)"
proof -
  define r where "r = map (\<lambda>(t, d). rh_fn (t - 273.15) (d - 273.15)) (point_sel ds (a, b))"
  have ne: "r \<noteq> []" using assms(7) by (simp add: r_def)
  have res: "get_rh_by_days rh_fn ds s = Inr (Some (list_min r * 100), Some (list_max r * 100))"
    using assms ne
    by (simp add: get_rh_by_days_def get_rh_by_days_sel_def has_def bind_err_def r_def Let_def)
  have img: "rh_percent rh_fn ` set (point_sel ds (a, b)) = (\<lambda>x. x * 100) ` set r"
    by (auto simp: r_def rh_percent_def image_iff split_beta)
  have mx: "list_max r \<in> set r" "\<forall>x \<in> set r. x \<le> list_max r"
    using ne by (simp_all add: list_max_Max)
  have mn: "list_min r \<in> set r" "\<forall>x \<in> set r. list_min r \<le> x"
    using ne by (simp_all add: list_min_Min)
  show ?thesis
    unfolding res img using mx mn by auto
qed

theorem get_rh_by_days_min_max_witness:
  "\<exists>lo hi. get_rh_by_days magnus_rh healthy evening = Inr (Some lo, Some hi)
      \<and> lo \<in> rh_percent magnus_rh ` {(283.15, 278.15), (285.15, 279.15)}
      \<and> hi \<in> rh_percent magnus_rh ` {(283.15, 278.15), (285.15, 279.15)}
      \<and> lo \<le> hi"
proof -
  have "has healthy T2M" "has healthy D2M" "point_sel healthy (63745099200, 63745185600) \<noteq> []"
    by (simp_all add: healthy_def has_def)
  from get_rh_by_days_min_max [OF ex_iv ex_day(3) ex_day(1) ex_day(2) this, of magnus_rh]
  show ?thesis by (auto simp: healthy_def)
qed

text \<open>
  The claim C5 as it is written fails: with the formula of the claim, a dewpoint above
  the temperature gives a maximum above 100.
\<close>

theorem get_rh_by_days_not_clipped:
  "get_rh_by_days magnus_rh humid evening
      = Inr (Some (magnus_rh 10 10.5 * 100), Some (magnus_rh 10 10.5 * 100))
   \<and> 100 < magnus_rh 10 10.5 * 100"
proof -
  have "get_rh_by_days magnus_rh humid evening
      = Inr (Some (magnus_rh 10 10.5 * 100), Some (magnus_rh 10 10.5 * 100))"
    by (simp add: get_rh_by_days_def get_rh_by_days_sel_def ex_iv ex_day bind_err_def humid_def
        healthy_def list_min_def list_max_def)
  moreover have "1 < magnus_rh 10 10.5"
    by (simp add: magnus_rh_def)
  ultimately show ?thesis by simp
qed

section \<open>Properties of the main loop\<close>

lemma get_rain_window_empty: "get_rain_window m [] = (0, 0, 0)"
  by (simp add: get_rain_window_def window_stats_def ifrain_of_def tpmax_of_def
      rain_percent_of_def nanmax_def count_valid_def)

lemmas example_datasets = healthy_def no_t2m_def no_tp_def unreadable_def

lemma ex_temp_none: "load ds T2M = NoDataset \<Longrightarrow> get_temperature_by_3h ds evening = Inr ([], [])"
  by (simp add: get_temperature_by_3h_def)

lemma ex_temp_ok: "load ds T2M = Holds \<Longrightarrow> \<not> isl (get_temperature_by_3h ds evening)"
  by (simp add: get_temperature_by_3h_def ex_iv ex_utc bind_err_def)

lemma ex_rh_none:
  "load ds T2M = NoDataset \<Longrightarrow> get_rh_by_days_sel target rh ds evening = Inr (None, None)"
  by (simp add: get_rh_by_days_sel_def ex_iv ex_day bind_err_def)

lemma ex_rh_slices:
  "load ds T2M = Holds \<Longrightarrow> load ds D2M = Holds \<Longrightarrow>
   get_rh_by_days_sel Range rh ds evening = Inl NotImplementedError"
  by (simp add: get_rh_by_days_sel_def ex_iv ex_day bind_err_def)

lemma ex_wdir_none: "load ds U10 = NoDataset \<Longrightarrow> get_wdir_by_3h ds evening = Inr None"
  by (simp add: get_wdir_by_3h_def ex_iv bind_err_def)

lemma ex_wdir: "get_wdir_by_3h no_t2m evening = Inr (Some (replicate 8 None))"
  by (simp add: get_wdir_by_3h_def ex_iv ex_utc example_datasets bind_err_def)
     (simp add: evening_windows_def get_wdir_window_def nanmean_def mean_def eval_nat_numeral)

lemma ex_uvg_none: "load ds I10FG = NoDataset \<Longrightarrow> get_uvg_by_3h ds evening = Inr None"
  by (simp add: get_uvg_by_3h_def)

lemma ex_uvg: "get_uvg_by_3h no_t2m evening = Inr (Some (replicate 8 (Some 2)))"
  by (simp add: get_uvg_by_3h_def ex_iv example_datasets bind_err_def)
     (simp add: evening_windows_def utc_window_def to_utc_modern max_seconds_def bind_err_def
        list_max_def ws2scale_city_def undef_def eval_nat_numeral)

lemma ex_cloud_none: "load ds TCC = NoDataset \<Longrightarrow> get_cloud_by_3h ds evening = Inr None"
  by (simp add: get_cloud_by_3h_def)

lemma ex_cloud: "get_cloud_by_3h no_t2m evening = Inr (Some (replicate 8 1))"
  by (simp add: get_cloud_by_3h_def ex_iv ex_utc ex_utc_hd ex_day example_datasets bind_err_def)
     (simp add: evening_windows_def cloud_code_def nan_gt_def eval_nat_numeral)

lemma ex_rain_none: "load ds TP = NoDataset \<Longrightarrow> get_rain_by_3h ds evening = Inr None"
  by (simp add: get_rain_by_3h_def ex_parse dt_add_def max_seconds_def bind_err_def
       combine_min_time_def date_of_def ex_loop)

lemma ex_rain: "get_rain_by_3h no_t2m evening = Inr (Some (replicate 8 (0, 0, 0)))"
  by (simp add: get_rain_by_3h_def ex_parse dt_add_def max_seconds_def bind_err_def
       combine_min_time_def date_of_def ex_loop example_datasets get_rain_window_empty)
     (simp add: evening_windows_def utc_window_def to_utc_modern max_seconds_def bind_err_def
        eval_nat_numeral)

lemma ex_temp_lacks: "load ds T2M = Lacks \<Longrightarrow> get_temperature_by_3h ds evening = Inl KeyError"
  by (simp add: get_temperature_by_3h_def)

lemma ex_abort_frame: "process_start rh no_t2m evening = Inl ValueError"
proof -
  have l: "load no_t2m T2M = NoDataset" by (simp add: example_datasets)
  show ?thesis
    by (simp add: process_start_def ex_iv ex_temp_none [OF l] ex_rh_none [OF l] ex_wdir ex_uvg
        ex_cloud ex_rain bind_err_def DataFrame_def evening_windows_def column_len_def)
qed

lemma ex_abort_lacks: "process_start rh lacks_t2m evening = Inl KeyError"
proof -
  have l: "load lacks_t2m T2M = Lacks" by (simp add: lacks_t2m_def healthy_def)
  show ?thesis
    by (simp add: process_start_def ex_iv ex_temp_lacks [OF l] bind_err_def)
qed

text \<open>
  Whenever \<open>t2m\<close> and \<open>d2m\<close> are both read, \<open>get_rh_by_days\<close> reaches \<open>sel\<close> with
  the two slices and the start time ends in \<open>NotImplementedError\<close>, whatever the other
  variables are.
\<close>

lemma process_start_slices:
  assumes "load ds T2M = Holds" and "load ds D2M = Holds"
  shows "process_start rh ds evening = Inl NotImplementedError"
proof -
  have "\<not> isl (get_temperature_by_3h ds evening)"
    by (rule ex_temp_ok) (rule assms)
  moreover have "get_rh_by_days_sel Range rh ds evening = Inl NotImplementedError"
    by (rule ex_rh_slices) (rule assms)+
  ultimately show ?thesis
    by (cases "get_temperature_by_3h ds evening")
       (simp_all add: process_start_def ex_iv bind_err_def)
qed

lemma ex_abort_sel: "process_start rh no_tp evening = Inl NotImplementedError"
  by (rule process_start_slices) (simp_all add: example_datasets)

text \<open>
  The path beside them, where nothing can be read: every extractor returns its
  \<open>None\<close>, the start time is skipped at \<open>if not ifrain_list\<close> and the run goes on.
\<close>

lemma ex_skip: "process_start rh unreadable evening = Inr None"
proof -
  have l: "load unreadable v = NoDataset" for v by (simp add: example_datasets)
  show ?thesis
    by (simp add: process_start_def ex_iv ex_temp_none ex_rh_none ex_wdir_none ex_uvg_none
        ex_cloud_none ex_rain_none l bind_err_def)
qed

lemma main_loop_skips_unreadable:
  "main_loop rh ((evening, unreadable) # rest) = main_loop rh rest"
  by (simp add: ex_skip)

text \<open>
  C4 fails in the source: a variable that is missing at one start time ends the run.
  When the loader returns \<open>None\<close> for \<open>t2m\<close> and the other variables are read, the
  temperature columns are empty and \<open>pd.DataFrame\<close> raises \<open>ValueError\<close>. When the
  file has no field \<open>t2m\<close>, \<open>temperature_ds['time']\<close> raises \<open>KeyError\<close>. When
  the loader returns \<open>None\<close> for \<open>tp\<close>, the humidity extractor has raised
  \<open>NotImplementedError\<close> before the test of \<open>ifrain_list\<close> is reached. Nothing
  catches the exception: no table is written for that start time, and none for the
  start time after it.
\<close>

theorem main_loop_aborts:
  "main_loop magnus_rh [(evening, no_t2m), (evening, unreadable)] = ([], Some ValueError)
   \<and> main_loop magnus_rh [(evening, lacks_t2m), (evening, unreadable)] = ([], Some KeyError)
   \<and> main_loop magnus_rh [(evening, no_tp), (evening, unreadable)]
        = ([], Some NotImplementedError)"
  by (simp add: ex_abort_frame ex_abort_lacks ex_abort_sel)

end
